theory Spec2Isabelle
  imports Main "HOL-Library.Word" "HOL-Library.Signed_Division"
begin

section \<open>CTA Bus-O-Tron: the arrival-urgency display engine\<close>

text \<open>
  A shallow embedding of \<^verbatim>\<open>ctaBusOTron.ino\<close>. The target is the ESP8266, where
  \<^verbatim>\<open>int\<close> and \<^verbatim>\<open>long\<close> are 32-bit two's complement and \<^verbatim>\<open>unsigned long\<close>
  (the type of \<^verbatim>\<open>millis()\<close>) is a 32-bit unsigned integer that wraps around.
  Timestamps are therefore \<open>32 word\<close>. The ETA, slot and interval values are only ever
  compared with constants, so they are kept as \<open>int\<close>; the one place that produces an
  \<^verbatim>\<open>int\<close> from outside (\<^verbatim>\<open>String::toInt\<close>) keeps its result in the 32-bit range.
  Diagnostic output on the serial port is not modelled.
\<close>

subsection \<open>Pins\<close>

text \<open>The GPIO numbers of the \<^verbatim>\<open>#define\<close>s, and the output latch as a map from pin to level.\<close>

definition PIN_ARROW_RIGHT :: nat where "PIN_ARROW_RIGHT = 2"
definition PIN_ARROW_LEFT :: nat where "PIN_ARROW_LEFT = 16"
definition PIN_AMBER_RIGHT :: nat where "PIN_AMBER_RIGHT = 0"
definition PIN_AMBER_LEFT :: nat where "PIN_AMBER_LEFT = 5"
definition PIN_TALL_LIGHT :: nat where "PIN_TALL_LIGHT = 15"
definition PIN_RED :: nat where "PIN_RED = 4"

type_synonym gpio = "nat \<Rightarrow> bool"

abbreviation (input) HIGH :: bool where "HIGH \<equiv> True"
abbreviation (input) LOW :: bool where "LOW \<equiv> False"

definition digitalWrite :: "nat \<Rightarrow> bool \<Rightarrow> gpio \<Rightarrow> gpio" where
  "digitalWrite pin level io = io(pin := level)"

subsection \<open>Enumerations and the route record\<close>

datatype RouteType = BUS_ROUTE | RAIL_ROUTE
datatype LightColor = AMBER_LEFT | AMBER_RIGHT | RED_LIGHT
datatype ArrowDirection = ARROW_LEFT | ARROW_RIGHT | NO_ARROW

record Route =
  name :: string
  topic :: string
  rtype :: RouteType
  color :: LightColor
  arrow :: ArrowDirection
  displaySlot :: int
  eta :: int

text \<open>
  The field \<^verbatim>\<open>type\<close> is called \<open>rtype\<close> here. The constructor
  \<^verbatim>\<open>Route(n, t, rt, c, a, slot)\<close> starts the ETA at 0.
\<close>

definition mkRoute ::
  "string \<Rightarrow> string \<Rightarrow> RouteType \<Rightarrow> LightColor \<Rightarrow> ArrowDirection \<Rightarrow> int \<Rightarrow> Route" where
  "mkRoute n t rt c a slot =
     \<lparr>name = n, topic = t, rtype = rt, color = c, arrow = a, displaySlot = slot, eta = 0\<rparr>"

subsection \<open>LEDController\<close>

definition BLINK_SUPER_FAST :: int where "BLINK_SUPER_FAST = 180"
definition BLINK_FAST :: int where "BLINK_FAST = 360"
definition BLINK_MEDIUM :: int where "BLINK_MEDIUM = 600"
definition BLINK_SLOW :: int where "BLINK_SLOW = 900"

definition turnOffAll :: "gpio \<Rightarrow> gpio" where
  "turnOffAll io =
     digitalWrite PIN_RED LOW
      (digitalWrite PIN_AMBER_LEFT LOW
        (digitalWrite PIN_AMBER_RIGHT LOW
          (digitalWrite PIN_ARROW_LEFT LOW
            (digitalWrite PIN_ARROW_RIGHT LOW io))))"

definition setStatusLight :: "bool \<Rightarrow> gpio \<Rightarrow> gpio" where
  "setStatusLight on io = digitalWrite PIN_TALL_LIGHT (if on then HIGH else LOW) io"

fun setColorLight :: "LightColor \<Rightarrow> bool \<Rightarrow> gpio \<Rightarrow> gpio" where
  "setColorLight AMBER_LEFT on io = digitalWrite PIN_AMBER_LEFT (if on then HIGH else LOW) io"
| "setColorLight AMBER_RIGHT on io = digitalWrite PIN_AMBER_RIGHT (if on then HIGH else LOW) io"
| "setColorLight RED_LIGHT on io = digitalWrite PIN_RED (if on then HIGH else LOW) io"

text \<open>\<^verbatim>\<open>setArrow\<close>: the second write of each case switches the other arrow off.\<close>

fun setArrow :: "ArrowDirection \<Rightarrow> bool \<Rightarrow> gpio \<Rightarrow> gpio" where
  "setArrow ARROW_LEFT on io =
     digitalWrite PIN_ARROW_RIGHT LOW (digitalWrite PIN_ARROW_LEFT (if on then HIGH else LOW) io)"
| "setArrow ARROW_RIGHT on io =
     digitalWrite PIN_ARROW_LEFT LOW (digitalWrite PIN_ARROW_RIGHT (if on then HIGH else LOW) io)"
| "setArrow NO_ARROW on io =
     digitalWrite PIN_ARROW_RIGHT LOW (digitalWrite PIN_ARROW_LEFT LOW io)"

text \<open>\<^verbatim>\<open>getBlinkInterval\<close>: milliseconds, or the sentinels \<open>-1\<close> (solid) and \<open>0\<close> (off).\<close>

definition getBlinkInterval :: "int \<Rightarrow> int" where
  "getBlinkInterval e =
     (if e < 90 then BLINK_SUPER_FAST
      else if e < 300 then BLINK_FAST
      else if e < 600 then BLINK_MEDIUM
      else if e < 900 then BLINK_SLOW
      else if e < 5000 then - 1
      else 0)"

text \<open>
  The expression \<^verbatim>\<open>(currentTime % blinkInterval) < (blinkInterval / 2)\<close>. The left operand
  is \<^verbatim>\<open>unsigned long\<close>, so both \<^verbatim>\<open>int\<close> operands are converted to it: the remainder and
  the comparison are unsigned 32-bit; the halving is done on \<^verbatim>\<open>int\<close> first and truncates
  towards zero.
\<close>

definition shouldBeOn :: "32 word \<Rightarrow> int \<Rightarrow> bool" where
  "shouldBeOn currentTime blinkInterval =
     (currentTime mod (word_of_int blinkInterval) < word_of_int (blinkInterval sdiv 2))"

definition updateArrowBlink :: "ArrowDirection \<Rightarrow> int \<Rightarrow> 32 word \<Rightarrow> gpio \<Rightarrow> gpio" where
  "updateArrowBlink direction e currentTime io =
     (if e \<le> 0 then setArrow direction False io
      else let blinkInterval = getBlinkInterval e in
        if blinkInterval = 0 then setArrow direction False io
        else if blinkInterval = - 1 then setArrow direction True io
        else setArrow direction (shouldBeOn currentTime blinkInterval) io)"

text \<open>
  \<^verbatim>\<open>updateArrowBlink\<close> read as two steps. Every branch ends in
  \<^verbatim>\<open>setArrow(direction, b)\<close>; which branch is taken depends on the ETA alone
  (\<open>classify\<close>: the guard \<^verbatim>\<open>eta <= 0\<close>, then the sentinel returned by
  \<^verbatim>\<open>getBlinkInterval\<close>), and the boolean \<open>b\<close> of that branch depends on the time alone
  (\<open>isOn\<close>). Lemma \<open>updateArrowBlink_factors\<close> below shows that the two steps compose
  to the function as it is written.
\<close>

datatype BlinkPolicy = Off | Blink int | Solid

definition classify :: "int \<Rightarrow> BlinkPolicy" where
  "classify e =
     (if e \<le> 0 then Off
      else let blinkInterval = getBlinkInterval e in
        if blinkInterval = 0 then Off
        else if blinkInterval = - 1 then Solid
        else Blink blinkInterval)"

fun isOn :: "BlinkPolicy \<Rightarrow> 32 word \<Rightarrow> bool" where
  "isOn Off currentTime = False"
| "isOn Solid currentTime = True"
| "isOn (Blink blinkInterval) currentTime = shouldBeOn currentTime blinkInterval"

subsection \<open>DisplayManager\<close>

definition DISPLAY_CYCLE_LENGTH :: int where "DISPLAY_CYCLE_LENGTH = 60000"
definition SLOT_DURATION :: int where "SLOT_DURATION = 10000"
definition STATUS_PRINT_INTERVAL :: int where "STATUS_PRINT_INTERVAL = 5000"

text \<open>
  \<^verbatim>\<open>int currentSlot = (currentTime % DISPLAY_CYCLE_LENGTH) / SLOT_DURATION\<close>: unsigned
  32-bit arithmetic, the result converted back to \<^verbatim>\<open>int\<close>.
\<close>

definition currentSlot :: "32 word \<Rightarrow> int" where
  "currentSlot currentTime =
     sint ((currentTime mod (word_of_int DISPLAY_CYCLE_LENGTH :: 32 word))
             div (word_of_int SLOT_DURATION))"

text \<open>
  The state of the device: the output latch, the display manager's \<^verbatim>\<open>lastStatusPrint\<close>,
  and the fields of \<^verbatim>\<open>BusOTron\<close>.
\<close>

record BusOTron =
  gpio :: gpio
  lastStatusPrint :: "32 word"
  systemEnabled :: bool
  alertActive :: bool
  routes :: "Route list"

text \<open>
  \<^verbatim>\<open>DisplayManager::update\<close>. The search loop stops at the first route whose slot
  matches (\<open>find\<close>); \<open>None\<close> is the \<^verbatim>\<open>nullptr\<close>.
\<close>

definition DisplayManager_update :: "32 word \<Rightarrow> bool \<Rightarrow> BusOTron \<Rightarrow> BusOTron" where
  "DisplayManager_update currentTime enabled st =
     (if \<not> enabled then st\<lparr>gpio := turnOffAll (gpio st)\<rparr>
      else
        let st1 = (if currentTime - lastStatusPrint st \<ge> word_of_int STATUS_PRINT_INTERVAL
                   then st\<lparr>lastStatusPrint := currentTime\<rparr> else st);
            slot = currentSlot currentTime;
            currentRoute = find (\<lambda>r. displaySlot r = slot) (routes st1);
            io = turnOffAll (gpio st1)
        in case currentRoute of
             None \<Rightarrow> st1\<lparr>gpio := io\<rparr>
           | Some r \<Rightarrow>
               if eta r > 0
               then st1\<lparr>gpio := updateArrowBlink (arrow r) (eta r) currentTime
                                   (setColorLight (color r) True io)\<rparr>
               else st1\<lparr>gpio := io\<rparr>)"

subsection \<open>BusOTron: the message handler\<close>

text \<open>
  The 16-byte buffer \<^verbatim>\<open>message\<close>: the whole payload when it is shorter than the buffer,
  its first 15 bytes otherwise, then a terminating zero. What \<^verbatim>\<open>strcmp\<close> and
  \<^verbatim>\<open>String(message)\<close> read is the C string in the buffer: the bytes before the first
  zero byte.
\<close>

definition sizeof_message :: nat where "sizeof_message = 16"

definition cstring :: "string \<Rightarrow> string" where
  "cstring buf = takeWhile (\<lambda>c. c \<noteq> CHR 0x00) buf"

definition message_of :: "string \<Rightarrow> string" where
  "message_of payload =
     cstring (if length payload < sizeof_message then payload
              else take (sizeof_message - 1) payload)"

text \<open>
  \<^verbatim>\<open>String::toInt\<close> belongs to the Arduino core, not to this file. The core implements
  it as \<^verbatim>\<open>atol\<close> on the character buffer, and the C library's \<^verbatim>\<open>atol\<close> is
  \<^verbatim>\<open>strtol(s, NULL, 10)\<close>: skip leading white space, read an optional sign, read decimal
  digits up to the first other character, return 0 when there is no digit, and stop at
  \<^verbatim>\<open>LONG_MAX\<close> or \<^verbatim>\<open>LONG_MIN\<close> when the number does not fit a 32-bit \<^verbatim>\<open>long\<close>.
\<close>

definition isspace :: "char \<Rightarrow> bool" where
  "isspace c = (c = CHR '' '' \<or> c = CHR 0x09 \<or> c = CHR 0x0A \<or> c = CHR 0x0B
                \<or> c = CHR 0x0C \<or> c = CHR 0x0D)"

definition isdigit :: "char \<Rightarrow> bool" where
  "isdigit c = (48 \<le> (of_char c :: int) \<and> (of_char c :: int) \<le> 57)"

fun digits :: "int \<Rightarrow> string \<Rightarrow> int" where
  "digits acc [] = acc"
| "digits acc (c # cs) =
     (if isdigit c then digits (acc * 10 + (of_char c - 48)) cs else acc)"

definition LONG_MAX :: int where "LONG_MAX = 2147483647"
definition LONG_MIN :: int where "LONG_MIN = - 2147483648"

definition atol :: "string \<Rightarrow> int" where
  "atol s =
     (let s1 = dropWhile isspace s in
      case s1 of
        [] \<Rightarrow> 0
      | c # cs \<Rightarrow>
          if c = CHR ''-'' then max LONG_MIN (- digits 0 cs)
          else if c = CHR ''+'' then min LONG_MAX (digits 0 cs)
          else min LONG_MAX (digits 0 s1))"

definition toInt :: "string \<Rightarrow> int" where
  "toInt s = atol s"

text \<open>
  The loop over \<^verbatim>\<open>routes\<close> in \<^verbatim>\<open>handleMQTTMessage\<close>: the first route whose topic
  equals the message's topic gets the new ETA and the handler returns; \<open>None\<close> is the
  fall-through to "Unknown topic".
\<close>

fun setRouteEta :: "string \<Rightarrow> int \<Rightarrow> Route list \<Rightarrow> Route list option" where
  "setRouteEta tp e [] = None"
| "setRouteEta tp e (r # rs) =
     (if tp = topic r then Some (r\<lparr>eta := e\<rparr> # rs)
      else map_option ((#) r) (setRouteEta tp e rs))"

definition enableChannel :: string where "enableChannel = ''devices/busotron/enable''"
definition alertChannel :: string where "alertChannel = ''CTApredictions/alert/active''"

text \<open>
  \<^verbatim>\<open>handleMQTTMessage(topic, payload, length)\<close>. The topic is a C string and is compared
  with \<^verbatim>\<open>strcmp\<close>; \<open>tp\<close> is its text. The payload is \<open>length\<close> arbitrary bytes.
\<close>

definition handleMQTTMessage :: "string \<Rightarrow> string \<Rightarrow> BusOTron \<Rightarrow> BusOTron" where
  "handleMQTTMessage tp payload st =
     (let message = message_of payload in
      if tp = enableChannel then st\<lparr>systemEnabled := (message = ''ON'')\<rparr>
      else if tp = alertChannel then st\<lparr>alertActive := (message = ''ON'')\<rparr>
      else
        let e = toInt message in
        case setRouteEta tp e (routes st) of
          Some rs \<Rightarrow> st\<lparr>routes := rs\<rparr>
        | None \<Rightarrow> st)"

subsection \<open>BusOTron: construction and the main loop\<close>

definition initialRoutes :: "Route list" where
  "initialRoutes =
     [mkRoute ''Downtown Express'' ''CTApredictions/BUS/dtwnEXP'' BUS_ROUTE AMBER_LEFT ARROW_LEFT 0,
      mkRoute ''Route 77 West'' ''CTApredictions/BUS/1151/77'' BUS_ROUTE AMBER_LEFT ARROW_RIGHT 1,
      mkRoute ''Brown Line South'' ''CTApredictions/RAIL/30232'' RAIL_ROUTE RED_LIGHT ARROW_LEFT 2,
      mkRoute ''Brown Line North'' ''CTApredictions/RAIL/30231'' RAIL_ROUTE RED_LIGHT ARROW_RIGHT 3,
      mkRoute ''Route 151 South'' ''CTApredictions/BUS/1074/151'' BUS_ROUTE AMBER_RIGHT ARROW_LEFT 4,
      mkRoute ''Route 151 North'' ''CTApredictions/BUS/1151/151'' BUS_ROUTE AMBER_RIGHT ARROW_RIGHT 5]"

text \<open>
  The constructor followed by \<^verbatim>\<open>LEDController::init\<close>: route LEDs off, status light on
  during start-up. \<open>io\<close> is whatever the pins held before.
\<close>

definition BusOTron_init :: "gpio \<Rightarrow> BusOTron" where
  "BusOTron_init io =
     \<lparr>gpio = digitalWrite PIN_TALL_LIGHT HIGH (turnOffAll io),
      lastStatusPrint = 0,
      systemEnabled = True,
      alertActive = False,
      routes = initialRoutes\<rparr>"

text \<open>
  One pass of \<^verbatim>\<open>BusOTron::loop\<close>. \<open>renderTick\<close> is the part after
  \<^verbatim>\<open>networkManager.loop()\<close>, with \<open>currentTime\<close> the value \<^verbatim>\<open>millis()\<close> returned;
  \<open>BusOTron_loop\<close> first hands the messages that arrived to the handler, in order.
\<close>

definition renderTick :: "32 word \<Rightarrow> BusOTron \<Rightarrow> BusOTron" where
  "renderTick currentTime st =
     (let st1 = DisplayManager_update currentTime (systemEnabled st) st
      in st1\<lparr>gpio := setStatusLight (alertActive st1) (gpio st1)\<rparr>)"

definition BusOTron_loop :: "(string \<times> string) list \<Rightarrow> 32 word \<Rightarrow> BusOTron \<Rightarrow> BusOTron" where
  "BusOTron_loop inbound currentTime st =
     renderTick currentTime (foldl (\<lambda>s (tp, payload). handleMQTTMessage tp payload s) st inbound)"

text \<open>The six indicator outputs, as one observation of the latch.\<close>

definition indicators :: "gpio \<Rightarrow> bool list" where
  "indicators io =
     map io [PIN_ARROW_RIGHT, PIN_ARROW_LEFT, PIN_AMBER_RIGHT, PIN_AMBER_LEFT, PIN_RED,
             PIN_TALL_LIGHT]"

text \<open>All five route indicators (both arrows and the three colours) are off.\<close>

definition routeIndicatorsOff :: "gpio \<Rightarrow> bool" where
  "routeIndicatorsOff io =
     (\<not> io PIN_ARROW_RIGHT \<and> \<not> io PIN_ARROW_LEFT \<and> \<not> io PIN_AMBER_RIGHT
      \<and> \<not> io PIN_AMBER_LEFT \<and> \<not> io PIN_RED)"

text \<open>A latch with every pin low, as a starting point for concrete runs.\<close>

definition allLow :: gpio where
  "allLow = (\<lambda>pin. LOW)"

text \<open>
  The payload that the message contract of the specification expects on a route's channel:
  the decimal ASCII text of a number, with no sign and no decimal point. It is used only to
  state what the handler stores for such a payload.
\<close>

fun decimal_payload :: "nat \<Rightarrow> string" where
  "decimal_payload n =
     (if n < 10 then [char_of (48 + int n)]
      else decimal_payload (n div 10) @ [char_of (48 + int (n mod 10))])"

declare decimal_payload.simps [simp del]

section \<open>Properties\<close>

lemmas pin_defs =
  PIN_ARROW_RIGHT_def PIN_ARROW_LEFT_def PIN_AMBER_RIGHT_def PIN_AMBER_LEFT_def
  PIN_TALL_LIGHT_def PIN_RED_def

lemmas blink_defs = BLINK_SUPER_FAST_def BLINK_FAST_def BLINK_MEDIUM_def BLINK_SLOW_def

lemma updateArrowBlink_factors:
  "updateArrowBlink direction e currentTime io =
     setArrow direction (isOn (classify e) currentTime) io"
  by (simp add: updateArrowBlink_def classify_def Let_def)

subsection \<open>Helper facts\<close>

lemma classify_flat:
  "classify e =
     (if e \<le> 0 then Off
      else if e < 90 then Blink 180
      else if e < 300 then Blink 360
      else if e < 600 then Blink 600
      else if e < 900 then Blink 900
      else if e < 5000 then Solid
      else Off)"
  by (simp add: classify_def getBlinkInterval_def blink_defs Let_def)

lemma word_of_int_uint32:
  "0 \<le> i \<Longrightarrow> i < 2 ^ 32 \<Longrightarrow> uint (word_of_int i :: 32 word) = i"
  by (simp add: uint_word_of_int take_bit_int_eq_self)

lemma shouldBeOn_formula:
  assumes "0 < I" "I < 2 ^ 31"
  shows "shouldBeOn now I = (uint now mod I < I div 2)"
proof -
  have a: "uint (word_of_int I :: 32 word) = I"
    using assms by (simp add: word_of_int_uint32)
  have d: "I sdiv 2 = I div 2"
    using assms by (simp add: signed_divide_int_def sgn_if)
  have b: "uint (word_of_int (I div 2) :: 32 word) = I div 2"
    using assms by (simp add: word_of_int_uint32)
  show ?thesis
    unfolding shouldBeOn_def d word_less_def uint_mod a b ..
qed

lemma uint_plus_no_wrap:
  assumes "0 \<le> k" "uint (w :: 32 word) + k < 2 ^ 32"
  shows "uint (w + word_of_int k) = uint w + k"
proof -
  have "uint (w + word_of_int k) = (uint w + k) mod 2 ^ 32"
    by (simp add: uint_word_ariths uint_word_of_int take_bit_eq_mod mod_add_right_eq)
  also have "\<dots> = uint w + k"
    using assms by simp
  finally show ?thesis .
qed

lemma shouldBeOn_periodic:
  assumes "0 < I" "uint now + I < 2 ^ 32"
  shows "shouldBeOn (now + word_of_int I) I = shouldBeOn now I"
proof -
  have "uint now \<ge> 0" by simp
  then have I: "I < 2 ^ 32" using assms by linarith
  have a: "uint (word_of_int I :: 32 word) = I"
    using assms I by (simp add: word_of_int_uint32)
  have s: "uint (now + word_of_int I) = uint now + I"
    using assms by (simp add: uint_plus_no_wrap)
  have "uint ((now + word_of_int I) mod (word_of_int I)) = uint (now mod (word_of_int I))"
    by (simp add: uint_mod a s)
  then have "(now + word_of_int I) mod (word_of_int I) = now mod (word_of_int I)"
    by (simp only: word_uint_eq_iff)
  then show ?thesis by (simp add: shouldBeOn_def)
qed

lemma setArrow_pins:
  "setArrow d b io PIN_ARROW_LEFT = (d = ARROW_LEFT \<and> b)"
  "setArrow d b io PIN_ARROW_RIGHT = (d = ARROW_RIGHT \<and> b)"
  by (cases d; simp add: digitalWrite_def pin_defs)+

lemma currentSlot_formula: "currentSlot now = (uint now mod 60000) div 10000"
proof -
  have "uint ((now mod 60000) div (10000 :: 32 word)) = (uint now mod 60000) div 10000"
    by (simp add: uint_div uint_mod)
  moreover have "(uint now mod 60000) div 10000 < 6"
    by simp
  ultimately show ?thesis
    unfolding currentSlot_def DISPLAY_CYCLE_LENGTH_def SLOT_DURATION_def
    by (simp add: sint_uint signed_take_bit_int_eq_self)
qed

subsection \<open>C1: the urgency thresholds\<close>

text \<open>
  Claim C1. The classification that \<^verbatim>\<open>updateArrowBlink\<close> applies to an ETA follows the
  half-open bands exactly: \<open>e \<le> 0\<close> is off, \<open>0 < e < 90\<close> blinks at 180 ms,
  \<open>90 \<le> e < 300\<close> at 360 ms, \<open>300 \<le> e < 600\<close> at 600 ms, \<open>600 \<le> e < 900\<close> at 900 ms,
  \<open>900 \<le> e < 5000\<close> is solid and \<open>e \<ge> 5000\<close> is off, so each of 90, 300, 600, 900 and
  5000 belongs to the higher band. The last conjunct ties the classification to the function
  as written: the arrow is set to the state of that policy at the current time.
\<close>

theorem classify_thresholds:
  "(e \<le> 0 \<longrightarrow> classify e = Off) \<and>
   (0 < e \<and> e < 90 \<longrightarrow> classify e = Blink 180) \<and>
   (90 \<le> e \<and> e < 300 \<longrightarrow> classify e = Blink 360) \<and>
   (300 \<le> e \<and> e < 600 \<longrightarrow> classify e = Blink 600) \<and>
   (600 \<le> e \<and> e < 900 \<longrightarrow> classify e = Blink 900) \<and>
   (900 \<le> e \<and> e < 5000 \<longrightarrow> classify e = Solid) \<and>
   (5000 \<le> e \<longrightarrow> classify e = Off) \<and>
   updateArrowBlink direction e currentTime io =
     setArrow direction (isOn (classify e) currentTime) io"
  by (simp add: classify_flat updateArrowBlink_factors)

theorem classify_thresholds_witness:
  "classify 0 = Off \<and> classify 1 = Blink 180 \<and> classify 89 = Blink 180 \<and>
   classify 90 = Blink 360 \<and> classify 299 = Blink 360 \<and>
   classify 300 = Blink 600 \<and> classify 599 = Blink 600 \<and>
   classify 600 = Blink 900 \<and> classify 899 = Blink 900 \<and>
   classify 900 = Solid \<and> classify 4999 = Solid \<and>
   classify 5000 = Off \<and> classify 86400 = Off \<and> classify (- 1) = Off"
  using classify_thresholds [where e = 0] classify_thresholds [where e = 1]
    classify_thresholds [where e = 89] classify_thresholds [where e = 90]
    classify_thresholds [where e = 299] classify_thresholds [where e = 300]
    classify_thresholds [where e = 599] classify_thresholds [where e = 600]
    classify_thresholds [where e = 899] classify_thresholds [where e = 900]
    classify_thresholds [where e = 4999] classify_thresholds [where e = 5000]
    classify_thresholds [where e = 86400] classify_thresholds [where e = "- 1"]
  by simp

subsection \<open>C2: the blink phase\<close>

text \<open>
  Claim C2, as stated, asks for \<open>isOn (Blink I) now = isOn (Blink I) (now + I)\<close> at every
  timestamp. The timestamp is the 32-bit \<^verbatim>\<open>millis()\<close> counter, and \<open>2 ^ 32\<close> is not a
  multiple of the interval: at the last millisecond before the counter wraps the 180 ms arrow
  is on, and 180 ms later (counter value 179) it is off.
\<close>

theorem isOn_phase_counterexample:
  "isOn (Blink 180) (4294967295 + word_of_int 180) \<noteq> isOn (Blink 180) 4294967295"
  by (simp add: shouldBeOn_def signed_divide_int_def)

text \<open>
  Claim C2, amended. For every interval \<open>I > 0\<close> (an \<^verbatim>\<open>int\<close>, so below \<open>2 ^ 31\<close>) and every
  timestamp, the arrow of a blinking policy is on exactly when \<open>now mod I < I div 2\<close>; an
  ETA classified off leaves both arrow outputs off and an ETA classified solid switches the
  route's arrow on, whatever the time; and the phase repeats after \<open>I\<close> milliseconds as long
  as \<open>now + I\<close> does not wrap past \<open>2 ^ 32\<close>.
\<close>

theorem isOn_phase:
  "(0 < I \<and> I < 2 ^ 31 \<longrightarrow> isOn (Blink I) now = (uint now mod I < I div 2)) \<and>
   (classify e = Off \<longrightarrow>
      \<not> updateArrowBlink d e now io PIN_ARROW_LEFT \<and>
      \<not> updateArrowBlink d e now io PIN_ARROW_RIGHT) \<and>
   (classify e = Solid \<longrightarrow>
      updateArrowBlink d e now io PIN_ARROW_LEFT = (d = ARROW_LEFT) \<and>
      updateArrowBlink d e now io PIN_ARROW_RIGHT = (d = ARROW_RIGHT)) \<and>
   (0 < I \<and> uint now + I < 2 ^ 32 \<longrightarrow>
      isOn (Blink I) (now + word_of_int I) = isOn (Blink I) now)"
  by (simp add: shouldBeOn_formula shouldBeOn_periodic updateArrowBlink_factors setArrow_pins)

theorem isOn_phase_witness:
  "isOn (Blink 360) 14900 \<and> \<not> isOn (Blink 360) 15000 \<and>
   isOn (Blink 360) (14900 + word_of_int 360) \<and>
   \<not> updateArrowBlink ARROW_LEFT 0 14900 (\<lambda>_. True) PIN_ARROW_LEFT \<and>
   updateArrowBlink ARROW_LEFT 900 15000 (\<lambda>_. False) PIN_ARROW_LEFT"
  using
    isOn_phase [where I = 360 and now = 14900 and e = 0 and d = ARROW_LEFT
      and io = "\<lambda>_. True"]
    isOn_phase [where I = 360 and now = 15000 and e = 900 and d = ARROW_LEFT
      and io = "\<lambda>_. False"]
  by (simp add: classify_flat)

subsection \<open>C3: the slot schedule\<close>

text \<open>
  Claim C3, as stated, asks for \<open>currentSlot now = currentSlot (now + 60000)\<close> at every
  timestamp. \<open>2 ^ 32\<close> is not a multiple of 60000, so the schedule jumps when the 32-bit
  counter wraps: the last millisecond before the wrap is in slot 4, and 60 s later the
  counter reads 59999, which is in slot 5.
\<close>

theorem currentSlot_periodic_counterexample:
  "currentSlot (4294967295 + 60000) \<noteq> currentSlot 4294967295"
  by (simp add: currentSlot_formula)

text \<open>
  Claim C3, amended. For every timestamp the active slot is \<open>(now mod 60000) div 10000\<close>,
  which equals \<open>(now div 10000) mod 6\<close> and lies in 0..5; it depends on the timestamp
  alone; and it repeats after 60000 ms as long as \<open>now + 60000\<close> does not wrap past
  \<open>2 ^ 32\<close>.
\<close>

theorem currentSlot_periodic:
  "currentSlot now = (uint now mod 60000) div 10000 \<and>
   currentSlot now = (uint now div 10000) mod 6 \<and>
   0 \<le> currentSlot now \<and> currentSlot now \<le> 5 \<and>
   (uint now + 60000 < 2 ^ 32 \<longrightarrow> currentSlot (now + 60000) = currentSlot now)"
proof -
  have f: "currentSlot now = (uint now mod 60000) div 10000"
    by (rule currentSlot_formula)
  have g: "(uint now mod 60000) div 10000 = (uint now div 10000) mod 6"
  proof -
    have "uint now mod 60000 = 10000 * (uint now div 10000 mod 6) + uint now mod 10000"
      using zmod_zmult2_eq [of 6 "uint now" 10000] by simp
    then show ?thesis by simp
  qed
  have r: "0 \<le> (uint now mod 60000) div 10000" "(uint now mod 60000) div 10000 \<le> 5"
    by simp_all
  have p: "currentSlot (now + 60000) = currentSlot now" if "uint now + 60000 < 2 ^ 32"
  proof -
    have "uint (now + word_of_int 60000) = uint now + 60000"
      using that by (intro uint_plus_no_wrap) simp_all
    then show ?thesis by (simp add: currentSlot_formula)
  qed
  show ?thesis using f g r p by simp
qed

theorem currentSlot_periodic_witness:
  "currentSlot 15000 = 1 \<and> currentSlot (15000 + 60000) = currentSlot 15000"
  using currentSlot_periodic [of 15000] by simp

subsection \<open>Helper facts for the message handler\<close>

lemma digit_char:
  assumes "d < 10"
  shows "isdigit (char_of (48 + int d))"
    and "of_char (char_of (48 + int d) :: char) = 48 + int d"
    and "\<not> isspace (char_of (48 + int d))"
    and "char_of (48 + int d) \<noteq> CHR ''-''"
    and "char_of (48 + int d) \<noteq> CHR ''+''"
    and "char_of (48 + int d) \<noteq> CHR 0x00"
proof -
  show v: "of_char (char_of (48 + int d) :: char) = 48 + int d"
    using assms by simp
  then show "isdigit (char_of (48 + int d))"
    using assms by (simp add: isdigit_def)
  have ne: "char_of (48 + int d) \<noteq> c" if "(of_char c :: int) < 48" for c :: char
    using v that by auto
  show "\<not> isspace (char_of (48 + int d))"
    by (simp add: isspace_def ne)
  show "char_of (48 + int d) \<noteq> CHR ''-''" by (simp add: ne)
  show "char_of (48 + int d) \<noteq> CHR ''+''" by (simp add: ne)
  show "char_of (48 + int d) \<noteq> CHR 0x00" by (simp add: ne)
qed

lemma decimal_payload_digits:
  "digits acc (decimal_payload n @ rest) =
     digits (acc * 10 ^ length (decimal_payload n) + int n) rest"
proof (induction n arbitrary: acc rest rule: decimal_payload.induct)
  case (1 n)
  show ?case
  proof (cases "n < 10")
    case True
    then show ?thesis
      by (simp add: decimal_payload.simps [of n] digit_char)
  next
    case False
    have m: "n mod 10 < 10" by simp
    have "int n = int (n div 10) * 10 + int (n mod 10)"
      by (simp add: zdiv_int zmod_int)
    with False show ?thesis
      using "1.IH" [of acc "char_of (48 + int (n mod 10)) # rest"]
      by (simp add: decimal_payload.simps [of n] digit_char [OF m] algebra_simps)
  qed
qed

lemma decimal_payload_length:
  "0 < k \<Longrightarrow> n < 10 ^ k \<Longrightarrow> length (decimal_payload n) \<le> k"
proof (induction n arbitrary: k rule: decimal_payload.induct)
  case (1 n)
  show ?case
  proof (cases "n < 10")
    case True
    then show ?thesis using "1.prems" by (simp add: decimal_payload.simps [of n])
  next
    case False
    then have "k \<noteq> 1" using "1.prems" by auto
    then obtain j where k: "k = Suc j" "0 < j" using "1.prems" by (cases k) auto
    have "n div 10 < 10 ^ j" using "1.prems" k by (simp add: less_mult_imp_div_less)
    then have "length (decimal_payload (n div 10)) \<le> j"
      using "1.IH" [of j] False k by simp
    then show ?thesis using False k by (simp add: decimal_payload.simps [of n])
  qed
qed

lemma decimal_payload_chars:
  "c \<in> set (decimal_payload n) \<Longrightarrow> c \<noteq> CHR 0x00"
proof (induction n rule: decimal_payload.induct)
  case (1 n)
  have m: "n mod 10 < 10" by simp
  show ?case
  proof (cases "n < 10")
    case True
    then show ?thesis using "1.prems" digit_char(6) [of n]
      by (simp add: decimal_payload.simps [of n])
  next
    case False
    then show ?thesis using "1.prems" "1.IH" digit_char(6) [OF m]
      by (auto simp add: decimal_payload.simps [of n])
  qed
qed

lemma decimal_payload_hd:
  "\<exists>d cs. d < 10 \<and> decimal_payload n = char_of (48 + int d) # cs"
proof (induction n rule: decimal_payload.induct)
  case (1 n)
  show ?case
  proof (cases "n < 10")
    case True
    then show ?thesis by (auto simp add: decimal_payload.simps [of n])
  next
    case False
    then obtain d cs where "d < 10" "decimal_payload (n div 10) = char_of (48 + int d) # cs"
      using "1.IH" by blast
    then show ?thesis using False by (auto simp add: decimal_payload.simps [of n])
  qed
qed

lemma message_of_decimal_payload:
  assumes "n \<le> 2147483647"
  shows "message_of (decimal_payload n) = decimal_payload n"
proof -
  have "n < 10 ^ 10" using assms by simp
  then have "length (decimal_payload n) \<le> 10"
    by (intro decimal_payload_length) simp_all
  then have "length (decimal_payload n) < sizeof_message"
    by (simp add: sizeof_message_def)
  moreover have "takeWhile (\<lambda>c. c \<noteq> CHR 0x00) (decimal_payload n) = decimal_payload n"
    by (simp add: decimal_payload_chars)
  ultimately show ?thesis by (simp add: message_of_def cstring_def)
qed

lemma toInt_decimal_payload:
  assumes "n \<le> 2147483647"
  shows "toInt (message_of (decimal_payload n)) = int n"
proof -
  obtain d cs where d: "d < 10" "decimal_payload n = char_of (48 + int d) # cs"
    using decimal_payload_hd by blast
  have "digits 0 (decimal_payload n @ []) = int n"
    by (simp only: decimal_payload_digits) simp
  then have dg: "digits 0 (decimal_payload n) = int n" by simp
  have "atol (decimal_payload n) = min LONG_MAX (int n)"
    using d dg digit_char [OF d(1)] by (simp add: atol_def)
  then show ?thesis
    using assms by (simp add: toInt_def message_of_decimal_payload LONG_MAX_def)
qed

lemma toInt_no_number:
  assumes "m = [] \<or> (\<not> isspace (hd m) \<and> \<not> isdigit (hd m) \<and> hd m \<noteq> CHR ''-'' \<and> hd m \<noteq> CHR ''+'')"
  shows "toInt m = 0"
  using assms by (cases m) (auto simp add: toInt_def atol_def LONG_MAX_def)

lemma message_of_length: "length (message_of payload) < sizeof_message"
proof -
  let ?buf = "if length payload < sizeof_message then payload
              else take (sizeof_message - 1) payload"
  have "length (cstring ?buf) \<le> length ?buf"
    unfolding cstring_def by (rule length_takeWhile_le)
  moreover have "length ?buf < sizeof_message"
    by (simp add: sizeof_message_def)
  ultimately show ?thesis
    unfolding message_of_def by (rule le_less_trans)
qed

lemma setRouteEta_first:
  "i < length rs \<Longrightarrow> topic (rs ! i) = tp \<Longrightarrow> (\<forall>j<i. topic (rs ! j) \<noteq> tp) \<Longrightarrow>
   setRouteEta tp e rs = Some (rs[i := (rs ! i)\<lparr>eta := e\<rparr>])"
proof (induction rs arbitrary: i)
  case Nil
  then show ?case by simp
next
  case (Cons r rs)
  show ?case
  proof (cases i)
    case 0
    then show ?thesis using Cons.prems by simp
  next
    case (Suc k)
    have "topic r \<noteq> tp" using Cons.prems(3) Suc by force
    moreover have "setRouteEta tp e rs = Some (rs[k := (rs ! k)\<lparr>eta := e\<rparr>])"
      using Cons.prems Suc by (intro Cons.IH) auto
    ultimately show ?thesis using Suc by auto
  qed
qed

lemma setRouteEta_none:
  "tp \<notin> topic ` set rs \<Longrightarrow> setRouteEta tp e rs = None"
  by (induction rs) auto

lemma decimal_payload_240: "decimal_payload 240 = ''240''"
  by (simp add: decimal_payload.simps char_of_def)

lemma digits_nonneg: "0 \<le> acc \<Longrightarrow> 0 \<le> digits acc s"
  by (induction s arbitrary: acc) (auto simp add: isdigit_def)

lemma atol_range: "LONG_MIN \<le> atol s \<and> atol s \<le> LONG_MAX"
proof -
  have d: "0 \<le> digits 0 t" for t
    by (rule digits_nonneg) simp
  have neg: "LONG_MIN \<le> max LONG_MIN (- k) \<and> max LONG_MIN (- k) \<le> LONG_MAX" if "0 \<le> k" for k
    using that by (simp add: LONG_MIN_def LONG_MAX_def)
  have pos: "LONG_MIN \<le> min LONG_MAX k \<and> min LONG_MAX k \<le> LONG_MAX" if "0 \<le> k" for k
    using that by (simp add: LONG_MIN_def LONG_MAX_def)
  show ?thesis
  proof (cases "dropWhile isspace s")
    case Nil
    show ?thesis
      unfolding atol_def Let_def Nil by (simp add: LONG_MIN_def LONG_MAX_def)
  next
    case (Cons c cs)
    show ?thesis
      unfolding atol_def Let_def Cons
      using neg [OF d [of cs]] pos [OF d [of cs]] pos [OF d [of "c # cs"]]
      by (simp del: digits.simps)
  qed
qed

lemma handle_route:
  assumes "tp \<noteq> enableChannel" "tp \<noteq> alertChannel"
    and "i < length (routes st)" "topic (routes st ! i) = tp"
    and "\<forall>j<i. topic (routes st ! j) \<noteq> tp"
  shows "handleMQTTMessage tp payload st =
     st\<lparr>routes := (routes st)[i := (routes st ! i)\<lparr>eta := toInt (message_of payload)\<rparr>]\<rparr>"
  using assms setRouteEta_first [OF assms(3,4,5)]
  by (simp add: handleMQTTMessage_def Let_def)

subsection \<open>C4: ETA messages\<close>

text \<open>
  Claim C4, as stated, says that a payload which is not a non-negative decimal integer stores
  the ETA 0. The handler stores whatever \<^verbatim>\<open>toInt\<close> reads, and \<^verbatim>\<open>toInt\<close> accepts a sign:
  the payload \<^verbatim>\<open>-5\<close> on the channel of route 77 stores the ETA \<open>-5\<close>.
\<close>

theorem route_eta_update_counterexample:
  "eta (routes (handleMQTTMessage ''CTApredictions/BUS/1151/77'' ''-5'' (BusOTron_init allLow)) ! 1)
     = - 5"
  by (simp add: handleMQTTMessage_def BusOTron_init_def initialRoutes_def mkRoute_def
      enableChannel_def alertChannel_def message_of_def cstring_def sizeof_message_def
      toInt_def atol_def isspace_def isdigit_def LONG_MIN_def)

text \<open>
  Claim C4, amended. A message on a route's channel (a topic that is neither control channel;
  \<open>i\<close> is the first route with that topic) overwrites that route's ETA with what
  \<^verbatim>\<open>toInt\<close> reads from the decoded payload and changes nothing else. A payload that is the
  decimal text of a number \<open>n \<le> 2147483647\<close> stores \<open>n\<close>; a payload whose decoded text
  is empty or starts with a character that is not white space, a sign or a digit stores 0.
  The decoded text always fits the 16-byte buffer and the stored value is always a 32-bit
  \<^verbatim>\<open>int\<close>; each function of the model is total, so every payload yields a state.
\<close>

theorem route_eta_update:
  "(tp \<noteq> enableChannel \<and> tp \<noteq> alertChannel \<and> i < length (routes st) \<and>
    topic (routes st ! i) = tp \<and> (\<forall>j<i. topic (routes st ! j) \<noteq> tp) \<longrightarrow>
      handleMQTTMessage tp payload st =
        st\<lparr>routes := (routes st)[i := (routes st ! i)\<lparr>eta := toInt (message_of payload)\<rparr>]\<rparr>) \<and>
   (n \<le> 2147483647 \<longrightarrow> toInt (message_of (decimal_payload n)) = int n) \<and>
   (message_of payload = [] \<or>
    (\<not> isspace (hd (message_of payload)) \<and> \<not> isdigit (hd (message_of payload)) \<and>
     hd (message_of payload) \<noteq> CHR ''-'' \<and> hd (message_of payload) \<noteq> CHR ''+'') \<longrightarrow>
      toInt (message_of payload) = 0) \<and>
   length (message_of payload) < sizeof_message \<and>
   LONG_MIN \<le> toInt (message_of payload) \<and> toInt (message_of payload) \<le> LONG_MAX"
proof -
  note rng = atol_range
  show ?thesis
    using handle_route [of tp i st payload] toInt_decimal_payload [of n]
      toInt_no_number [of "message_of payload"] message_of_length [of payload]
      rng [of "message_of payload"]
    by (simp add: toInt_def)
qed

theorem route_eta_update_witness:
  "map eta (routes (handleMQTTMessage ''CTApredictions/BUS/1151/77'' ''240'' (BusOTron_init allLow)))
     = [0, 240, 0, 0, 0, 0] \<and>
   toInt (message_of ''240'') = 240 \<and>
   toInt (message_of ''unknown'') = 0"
  using
    route_eta_update [where tp = "''CTApredictions/BUS/1151/77''" and i = 1
      and st = "BusOTron_init allLow" and payload = "''240''" and n = 240]
    route_eta_update [where tp = "''CTApredictions/BUS/1151/77''" and i = 1
      and st = "BusOTron_init allLow" and payload = "''unknown''" and n = 240]
  by (simp add: decimal_payload_240 BusOTron_init_def initialRoutes_def mkRoute_def
      enableChannel_def alertChannel_def message_of_def cstring_def sizeof_message_def
      isspace_def isdigit_def)

subsection \<open>Helper facts for the frame of the handler\<close>

lemma setRouteEta_some:
  "setRouteEta tp e rs = Some rs' \<Longrightarrow>
   \<exists>i<length rs. topic (rs ! i) = tp \<and> rs' = rs[i := (rs ! i)\<lparr>eta := e\<rparr>]"
proof (induction rs arbitrary: rs')
  case Nil
  then show ?case by simp
next
  case (Cons r rs)
  show ?case
  proof (cases "tp = topic r")
    case True
    then have "rs' = (r # rs)[0 := ((r # rs) ! 0)\<lparr>eta := e\<rparr>]"
      using Cons.prems by simp
    then show ?thesis using True by (intro exI [of _ 0]) simp
  next
    case False
    then obtain t where t: "setRouteEta tp e rs = Some t" "rs' = r # t"
      using Cons.prems by auto
    then obtain i where "i < length rs" "topic (rs ! i) = tp" "t = rs[i := (rs ! i)\<lparr>eta := e\<rparr>]"
      using Cons.IH by blast
    then show ?thesis using t by (intro exI [of _ "Suc i"]) simp
  qed
qed

lemma eta_update_attributes:
  "(rs[i := (rs ! i)\<lparr>eta := e\<rparr>] ! k)\<lparr>eta := 0\<rparr> = (rs ! k)\<lparr>eta := 0\<rparr>"
  by (cases "i < length rs"; cases "k = i") (simp_all add: list_update_beyond)

lemma handle_other:
  assumes "tp \<noteq> enableChannel" "tp \<noteq> alertChannel"
  shows "handleMQTTMessage tp payload st = st \<or>
     (\<exists>i<length (routes st). topic (routes st ! i) = tp \<and>
        handleMQTTMessage tp payload st =
          st\<lparr>routes := (routes st)[i := (routes st ! i)\<lparr>eta := toInt (message_of payload)\<rparr>]\<rparr>)"
proof (cases "setRouteEta tp (toInt (message_of payload)) (routes st)")
  case None
  then show ?thesis using assms by (simp add: handleMQTTMessage_def Let_def)
next
  case (Some rs')
  then obtain i where "i < length (routes st)" "topic (routes st ! i) = tp"
    "rs' = (routes st)[i := (routes st ! i)\<lparr>eta := toInt (message_of payload)\<rparr>]"
    using setRouteEta_some by blast
  then show ?thesis using assms Some by (auto simp add: handleMQTTMessage_def Let_def)
qed

lemma handle_unknown:
  assumes "tp \<noteq> enableChannel" "tp \<noteq> alertChannel" "tp \<notin> topic ` set (routes st)"
  shows "handleMQTTMessage tp payload st = st"
  using assms by (simp add: handleMQTTMessage_def Let_def setRouteEta_none)

lemma handle_gpio:
  "gpio (handleMQTTMessage tp payload st) = gpio st"
  "lastStatusPrint (handleMQTTMessage tp payload st) = lastStatusPrint st"
  by (simp_all add: handleMQTTMessage_def Let_def split: option.split)

lemma handle_attributes:
  "length (routes (handleMQTTMessage tp payload st)) = length (routes st) \<and>
   (routes (handleMQTTMessage tp payload st) ! k)\<lparr>eta := 0\<rparr> = (routes st ! k)\<lparr>eta := 0\<rparr>"
proof (cases "tp = enableChannel \<or> tp = alertChannel")
  case True
  then show ?thesis by (auto simp add: handleMQTTMessage_def Let_def)
next
  case False
  then show ?thesis
    using handle_other [of tp payload st] by (auto simp add: eta_update_attributes)
qed

lemma message_of_ON:
  "message_of payload = ''ON'' \<longleftrightarrow>
     payload = ''ON'' \<or> (\<exists>rest. payload = ''ON'' @ CHR 0x00 # rest)"
proof (cases payload)
  case Nil
  then show ?thesis by (simp add: message_of_def cstring_def sizeof_message_def)
next
  case a: (Cons a p1)
  show ?thesis
  proof (cases p1)
    case Nil
    then show ?thesis using a by (simp add: message_of_def cstring_def sizeof_message_def)
  next
    case b: (Cons b p2)
    show ?thesis
    proof (cases p2)
      case Nil
      then show ?thesis using a b
        by (auto simp add: message_of_def cstring_def sizeof_message_def)
    next
      case c: (Cons c p3)
      then show ?thesis using a b
        by (auto simp add: message_of_def cstring_def sizeof_message_def)
    qed
  qed
qed

subsection \<open>C5: one mutation per message\<close>

text \<open>
  Claim C5. A call of \<^verbatim>\<open>handleMQTTMessage\<close> changes at most one piece of state, chosen by
  the topic: on the enable channel only \<open>systemEnabled\<close>, on the alert channel only
  \<open>alertActive\<close>, on any other topic either nothing or the ETA of exactly one route (one
  whose topic is the message's topic). The pins and the display manager's field are never
  touched, the number of routes is kept, every route keeps all its attributes other than the
  ETA, and a topic that is neither control channel nor the topic of a route leaves the whole
  state as it was.
\<close>

theorem handleMQTTMessage_frame:
  "gpio (handleMQTTMessage tp payload st) = gpio st \<and>
   lastStatusPrint (handleMQTTMessage tp payload st) = lastStatusPrint st \<and>
   length (routes (handleMQTTMessage tp payload st)) = length (routes st) \<and>
   (k < length (routes st) \<longrightarrow>
      (routes (handleMQTTMessage tp payload st) ! k)\<lparr>eta := 0\<rparr> = (routes st ! k)\<lparr>eta := 0\<rparr>) \<and>
   (tp = enableChannel \<longrightarrow>
      handleMQTTMessage tp payload st = st\<lparr>systemEnabled := (message_of payload = ''ON'')\<rparr>) \<and>
   (tp \<noteq> enableChannel \<and> tp = alertChannel \<longrightarrow>
      handleMQTTMessage tp payload st = st\<lparr>alertActive := (message_of payload = ''ON'')\<rparr>) \<and>
   (tp \<noteq> enableChannel \<and> tp \<noteq> alertChannel \<longrightarrow>
      handleMQTTMessage tp payload st = st \<or>
      (\<exists>i<length (routes st). topic (routes st ! i) = tp \<and>
         handleMQTTMessage tp payload st =
           st\<lparr>routes := (routes st)[i := (routes st ! i)\<lparr>eta := toInt (message_of payload)\<rparr>]\<rparr>)) \<and>
   (tp \<noteq> enableChannel \<and> tp \<noteq> alertChannel \<and> tp \<notin> topic ` set (routes st) \<longrightarrow>
      handleMQTTMessage tp payload st = st)"
proof -
  have a: "tp = enableChannel \<longrightarrow>
      handleMQTTMessage tp payload st = st\<lparr>systemEnabled := (message_of payload = ''ON'')\<rparr>"
    by (simp add: handleMQTTMessage_def Let_def)
  have b: "tp \<noteq> enableChannel \<and> tp = alertChannel \<longrightarrow>
      handleMQTTMessage tp payload st = st\<lparr>alertActive := (message_of payload = ''ON'')\<rparr>"
    by (simp add: handleMQTTMessage_def Let_def)
  show ?thesis
    using a b handle_other [of tp payload st] handle_unknown [of tp st payload]
      handle_attributes [of tp payload st k] handle_gpio [of tp payload st]
    by blast
qed

theorem handleMQTTMessage_frame_witness:
  "handleMQTTMessage ''bogus'' ''99'' (BusOTron_init allLow) = BusOTron_init allLow \<and>
   handleMQTTMessage ''devices/busotron/enable'' ''OFF'' (BusOTron_init allLow)
     = (BusOTron_init allLow)\<lparr>systemEnabled := False\<rparr> \<and>
   handleMQTTMessage ''CTApredictions/alert/active'' ''ON'' (BusOTron_init allLow)
     = (BusOTron_init allLow)\<lparr>alertActive := True\<rparr>"
  using
    handleMQTTMessage_frame [where tp = "''bogus''" and payload = "''99''"
      and st = "BusOTron_init allLow" and k = 0]
    handleMQTTMessage_frame [where tp = "''devices/busotron/enable''" and payload = "''OFF''"
      and st = "BusOTron_init allLow" and k = 0]
    handleMQTTMessage_frame [where tp = "''CTApredictions/alert/active''" and payload = "''ON''"
      and st = "BusOTron_init allLow" and k = 0]
  by (simp add: BusOTron_init_def initialRoutes_def mkRoute_def
      enableChannel_def alertChannel_def message_of_def cstring_def sizeof_message_def)

subsection \<open>C6: the control channels\<close>

text \<open>
  Claim C6. A message on the enable channel sets \<open>systemEnabled\<close> to true exactly when the
  truncated, decoded payload is \<^verbatim>\<open>ON\<close>, and to false otherwise; a message on the alert
  channel does the same to \<open>alertActive\<close>. The last conjunct says which raw payloads decode
  to \<^verbatim>\<open>ON\<close>: the two bytes themselves, or those two bytes followed by a zero byte.
\<close>

theorem control_channels:
  "systemEnabled (handleMQTTMessage enableChannel payload st) = (message_of payload = ''ON'') \<and>
   alertActive (handleMQTTMessage alertChannel payload st) = (message_of payload = ''ON'') \<and>
   (message_of payload = ''ON'') =
     (payload = ''ON'' \<or> (\<exists>rest. payload = ''ON'' @ CHR 0x00 # rest))"
  using message_of_ON [of payload]
  by (simp add: handleMQTTMessage_def Let_def enableChannel_def alertChannel_def)

theorem control_channels_witness:
  "systemEnabled (handleMQTTMessage enableChannel ''ON'' (BusOTron_init allLow)) \<and>
   \<not> systemEnabled (handleMQTTMessage enableChannel ''OFF'' (BusOTron_init allLow)) \<and>
   \<not> systemEnabled (handleMQTTMessage enableChannel ''on'' (BusOTron_init allLow)) \<and>
   alertActive (handleMQTTMessage alertChannel ''ON'' (BusOTron_init allLow)) \<and>
   \<not> alertActive (handleMQTTMessage alertChannel ''1'' (BusOTron_init allLow))"
  using control_channels [of "''ON''" "BusOTron_init allLow"]
    control_channels [of "''OFF''" "BusOTron_init allLow"]
    control_channels [of "''on''" "BusOTron_init allLow"]
    control_channels [of "''1''" "BusOTron_init allLow"]
  by simp

subsection \<open>Helper facts for the render tick\<close>

lemma turnOffAll_pins:
  "turnOffAll io PIN_ARROW_RIGHT = False"
  "turnOffAll io PIN_ARROW_LEFT = False"
  "turnOffAll io PIN_AMBER_RIGHT = False"
  "turnOffAll io PIN_AMBER_LEFT = False"
  "turnOffAll io PIN_RED = False"
  "turnOffAll io PIN_TALL_LIGHT = io PIN_TALL_LIGHT"
  by (simp_all add: turnOffAll_def digitalWrite_def pin_defs)

lemma setStatusLight_pins:
  "setStatusLight on io PIN_TALL_LIGHT = on"
  "setStatusLight on io PIN_ARROW_RIGHT = io PIN_ARROW_RIGHT"
  "setStatusLight on io PIN_ARROW_LEFT = io PIN_ARROW_LEFT"
  "setStatusLight on io PIN_AMBER_RIGHT = io PIN_AMBER_RIGHT"
  "setStatusLight on io PIN_AMBER_LEFT = io PIN_AMBER_LEFT"
  "setStatusLight on io PIN_RED = io PIN_RED"
  by (simp_all add: setStatusLight_def digitalWrite_def pin_defs)

lemma setColorLight_pins:
  "setColorLight c on io PIN_AMBER_LEFT = (if c = AMBER_LEFT then on else io PIN_AMBER_LEFT)"
  "setColorLight c on io PIN_AMBER_RIGHT = (if c = AMBER_RIGHT then on else io PIN_AMBER_RIGHT)"
  "setColorLight c on io PIN_RED = (if c = RED_LIGHT then on else io PIN_RED)"
  "setColorLight c on io PIN_ARROW_LEFT = io PIN_ARROW_LEFT"
  "setColorLight c on io PIN_ARROW_RIGHT = io PIN_ARROW_RIGHT"
  "setColorLight c on io PIN_TALL_LIGHT = io PIN_TALL_LIGHT"
  by (cases c; simp add: digitalWrite_def pin_defs)+

lemma setArrow_other_pins:
  "setArrow d b io PIN_AMBER_LEFT = io PIN_AMBER_LEFT"
  "setArrow d b io PIN_AMBER_RIGHT = io PIN_AMBER_RIGHT"
  "setArrow d b io PIN_RED = io PIN_RED"
  "setArrow d b io PIN_TALL_LIGHT = io PIN_TALL_LIGHT"
  by (cases d; simp add: digitalWrite_def pin_defs)+

lemmas pin_simps =
  turnOffAll_pins setStatusLight_pins setColorLight_pins setArrow_pins setArrow_other_pins

lemma update_fields:
  "routes (DisplayManager_update now en st) = routes st"
  "systemEnabled (DisplayManager_update now en st) = systemEnabled st"
  "alertActive (DisplayManager_update now en st) = alertActive st"
  by (simp_all add: DisplayManager_update_def Let_def split: option.split)

lemma update_gpio_disabled:
  "\<not> en \<Longrightarrow> gpio (DisplayManager_update now en st) = turnOffAll (gpio st)"
  by (simp add: DisplayManager_update_def)

lemma update_gpio_enabled:
  "en \<Longrightarrow> gpio (DisplayManager_update now en st) =
     (case find (\<lambda>r. displaySlot r = currentSlot now) (routes st) of
        None \<Rightarrow> turnOffAll (gpio st)
      | Some r \<Rightarrow>
          if eta r > 0
          then updateArrowBlink (arrow r) (eta r) now (setColorLight (color r) True (turnOffAll (gpio st)))
          else turnOffAll (gpio st))"
  by (simp add: DisplayManager_update_def Let_def split: option.split)

lemma renderTick_gpio:
  "gpio (renderTick now st) =
     setStatusLight (alertActive st) (gpio (DisplayManager_update now (systemEnabled st) st))"
  by (simp add: renderTick_def Let_def update_fields)

lemma renderTick_fields:
  "routes (renderTick now st) = routes st"
  "systemEnabled (renderTick now st) = systemEnabled st"
  "alertActive (renderTick now st) = alertActive st"
  by (simp_all add: renderTick_def Let_def update_fields)

lemma route77_240:
  "handleMQTTMessage ''CTApredictions/BUS/1151/77'' ''240'' (BusOTron_init allLow) =
     (BusOTron_init allLow)\<lparr>routes := initialRoutes[1 := (initialRoutes ! 1)\<lparr>eta := 240\<rparr>]\<rparr>"
  by (simp add: handleMQTTMessage_def BusOTron_init_def initialRoutes_def mkRoute_def
      enableChannel_def alertChannel_def message_of_def cstring_def sizeof_message_def
      toInt_def atol_def isspace_def isdigit_def LONG_MAX_def)

lemma render_indicators_indep:
  "indicators (gpio (renderTick now st)) =
     indicators (gpio (renderTick now (st\<lparr>gpio := allLow, lastStatusPrint := 0\<rparr>)))"
proof (cases "systemEnabled st")
  case True
  then show ?thesis
    by (simp add: indicators_def renderTick_gpio update_gpio_enabled pin_simps
        updateArrowBlink_factors split: option.split)
next
  case False
  then show ?thesis
    by (simp add: indicators_def renderTick_gpio update_gpio_disabled pin_simps)
qed

subsection \<open>C7: rendering while disabled\<close>

text \<open>
  Claim C7. On a render tick with \<open>systemEnabled\<close> false, all five route indicators are off
  whatever the ETAs are, and the status light shows \<open>alertActive\<close>.
\<close>

theorem render_disabled:
  "\<not> systemEnabled st \<Longrightarrow>
     routeIndicatorsOff (gpio (renderTick now st)) \<and>
     gpio (renderTick now st) PIN_TALL_LIGHT = alertActive st"
  by (simp add: renderTick_gpio update_gpio_disabled routeIndicatorsOff_def pin_simps)

theorem render_disabled_witness:
  "routeIndicatorsOff
     (gpio (renderTick 15000
        (handleMQTTMessage enableChannel ''OFF''
          (handleMQTTMessage ''CTApredictions/BUS/1151/77'' ''240'' (BusOTron_init allLow))))) \<and>
   \<not> gpio (renderTick 15000
        (handleMQTTMessage enableChannel ''OFF''
          (handleMQTTMessage ''CTApredictions/BUS/1151/77'' ''240'' (BusOTron_init allLow))))
      PIN_TALL_LIGHT"
  using render_disabled [of
    "handleMQTTMessage enableChannel ''OFF''
      (handleMQTTMessage ''CTApredictions/BUS/1151/77'' ''240'' (BusOTron_init allLow))" 15000]
  by (simp add: handleMQTTMessage_def Let_def BusOTron_init_def enableChannel_def
      alertChannel_def message_of_def cstring_def sizeof_message_def split: option.split)

subsection \<open>C8: rendering while enabled\<close>

text \<open>
  Claim C8. On a render tick with \<open>systemEnabled\<close> true: when a route owns the active slot
  (the first one in the table with that slot) and its ETA is positive, exactly that route's
  colour indicator is on and its arrow is in the state \<open>isOn (classify eta) now\<close>, the other
  arrow being off; when no route owns the slot, or the owner's ETA is not positive, all route
  indicators are off. The status light shows \<open>alertActive\<close> in either case.
\<close>

theorem render_enabled:
  "systemEnabled st \<Longrightarrow>
     gpio (renderTick now st) PIN_TALL_LIGHT = alertActive st \<and>
     (case find (\<lambda>r. displaySlot r = currentSlot now) (routes st) of
        None \<Rightarrow> routeIndicatorsOff (gpio (renderTick now st))
      | Some r \<Rightarrow>
          if eta r > 0
          then gpio (renderTick now st) PIN_AMBER_LEFT = (color r = AMBER_LEFT) \<and>
               gpio (renderTick now st) PIN_AMBER_RIGHT = (color r = AMBER_RIGHT) \<and>
               gpio (renderTick now st) PIN_RED = (color r = RED_LIGHT) \<and>
               gpio (renderTick now st) PIN_ARROW_LEFT =
                 (arrow r = ARROW_LEFT \<and> isOn (classify (eta r)) now) \<and>
               gpio (renderTick now st) PIN_ARROW_RIGHT =
                 (arrow r = ARROW_RIGHT \<and> isOn (classify (eta r)) now)
          else routeIndicatorsOff (gpio (renderTick now st)))"
  by (simp add: renderTick_gpio update_gpio_enabled routeIndicatorsOff_def pin_simps
      updateArrowBlink_factors split: option.split)

theorem render_enabled_witness:
  "indicators (gpio (renderTick 14900
      (handleMQTTMessage ''CTApredictions/BUS/1151/77'' ''240'' (BusOTron_init allLow))))
     = [True, False, False, True, False, False] \<and>
   indicators (gpio (renderTick 15000
      (handleMQTTMessage ''CTApredictions/BUS/1151/77'' ''240'' (BusOTron_init allLow))))
     = [False, False, False, True, False, False] \<and>
   indicators (gpio (renderTick 0 (BusOTron_init allLow)))
     = [False, False, False, False, False, False]"
  using
    render_enabled [of
      "handleMQTTMessage ''CTApredictions/BUS/1151/77'' ''240'' (BusOTron_init allLow)" 14900]
    render_enabled [of
      "handleMQTTMessage ''CTApredictions/BUS/1151/77'' ''240'' (BusOTron_init allLow)" 15000]
    render_enabled [of "BusOTron_init allLow" 0]
  unfolding route77_240
  by (simp add: BusOTron_init_def initialRoutes_def mkRoute_def
      currentSlot_formula classify_flat shouldBeOn_def signed_divide_int_def
      indicators_def routeIndicatorsOff_def)

subsection \<open>C9: the output is a function of the time and the readable state\<close>

text \<open>
  Claim C9. The six indicator outputs after a render tick depend only on the timestamp, the
  two booleans and the routes: two states that agree on these give the same outputs, whatever
  the pins showed before and whenever the status was last printed. A render tick changes none
  of the three, so rendering twice at the same timestamp gives the same outputs both times.
\<close>

theorem render_deterministic:
  "(systemEnabled st1 = systemEnabled st2 \<and> alertActive st1 = alertActive st2 \<and>
    routes st1 = routes st2 \<longrightarrow>
      indicators (gpio (renderTick now st1)) = indicators (gpio (renderTick now st2))) \<and>
   routes (renderTick now st) = routes st \<and>
   systemEnabled (renderTick now st) = systemEnabled st \<and>
   alertActive (renderTick now st) = alertActive st \<and>
   indicators (gpio (renderTick now (renderTick now st))) = indicators (gpio (renderTick now st))"
proof -
  have det: "indicators (gpio (renderTick now a)) = indicators (gpio (renderTick now b))"
    if "systemEnabled a = systemEnabled b" "alertActive a = alertActive b" "routes a = routes b"
    for a b :: BusOTron
  proof -
    have "a\<lparr>gpio := allLow, lastStatusPrint := 0\<rparr> = b\<lparr>gpio := allLow, lastStatusPrint := 0\<rparr>"
      using that by simp
    then show ?thesis
      using render_indicators_indep [of now a] render_indicators_indep [of now b] by simp
  qed
  have twice: "indicators (gpio (renderTick now (renderTick now st))) =
      indicators (gpio (renderTick now st))"
    by (rule det) (simp_all add: renderTick_fields)
  show ?thesis
    using det [of st1 st2] twice by (simp add: renderTick_fields)
qed

theorem render_deterministic_witness:
  "indicators (gpio (renderTick 14900 (renderTick 15000 (BusOTron_init allLow)))) =
     indicators (gpio (renderTick 14900 (BusOTron_init allLow))) \<and>
   indicators (gpio (renderTick 14900 (renderTick 14900 (BusOTron_init allLow)))) =
     indicators (gpio (renderTick 14900 (BusOTron_init allLow)))"
  using
    render_deterministic [of "renderTick 15000 (BusOTron_init allLow)" "BusOTron_init allLow"
      14900 "BusOTron_init allLow"]
    render_deterministic [of "BusOTron_init allLow" "BusOTron_init allLow"
      15000 "BusOTron_init allLow"]
  by simp

subsection \<open>C10: at most one arrow\<close>

text \<open>
  Claim C10. After \<^verbatim>\<open>setArrow\<close> at most one of the two arrow outputs is on: setting one
  direction drives that arrow to the requested level and the opposite arrow off,
  \<^verbatim>\<open>NO_ARROW\<close> drives both off; and after every render tick at most one arrow is lit.
\<close>

theorem one_arrow:
  "\<not> (setArrow d on io PIN_ARROW_LEFT \<and> setArrow d on io PIN_ARROW_RIGHT) \<and>
   setArrow ARROW_LEFT on io PIN_ARROW_LEFT = on \<and>
   \<not> setArrow ARROW_LEFT on io PIN_ARROW_RIGHT \<and>
   setArrow ARROW_RIGHT on io PIN_ARROW_RIGHT = on \<and>
   \<not> setArrow ARROW_RIGHT on io PIN_ARROW_LEFT \<and>
   \<not> setArrow NO_ARROW on io PIN_ARROW_LEFT \<and>
   \<not> setArrow NO_ARROW on io PIN_ARROW_RIGHT \<and>
   \<not> (gpio (renderTick now st) PIN_ARROW_LEFT \<and> gpio (renderTick now st) PIN_ARROW_RIGHT)"
proof -
  have tick: "\<not> (gpio (renderTick now st) PIN_ARROW_LEFT \<and> gpio (renderTick now st) PIN_ARROW_RIGHT)"
  proof (cases "systemEnabled st")
    case True
    then show ?thesis
      by (simp add: renderTick_gpio update_gpio_enabled pin_simps updateArrowBlink_factors
          del: setArrow.simps split: option.split)
  next
    case False
    then show ?thesis
      by (simp add: renderTick_gpio update_gpio_disabled pin_simps)
  qed
  show ?thesis
    using tick by (simp add: setArrow_pins del: setArrow.simps)
qed

theorem one_arrow_witness:
  "setArrow ARROW_LEFT True (\<lambda>pin. True) PIN_ARROW_LEFT \<and>
   \<not> setArrow ARROW_LEFT True (\<lambda>pin. True) PIN_ARROW_RIGHT \<and>
   \<not> setArrow NO_ARROW True (\<lambda>pin. True) PIN_ARROW_LEFT \<and>
   \<not> (gpio (renderTick 14900 (BusOTron_init allLow)) PIN_ARROW_LEFT \<and>
      gpio (renderTick 14900 (BusOTron_init allLow)) PIN_ARROW_RIGHT)"
  using one_arrow [of ARROW_LEFT True "\<lambda>pin. True" 14900 "BusOTron_init allLow"]
  by (simp del: setArrow.simps)

end
